theory Spec2Isabelle
  imports Complex_Main "HOL-Library.Word" "HOL-Library.Signed_Division"
begin

section \<open>QuEST common: hardware-agnostic internal and API functions\<close>

text \<open>
  A shallow embedding of \<^verbatim>\<open>src/QuEST/QuEST_common.c\<close>. Conventions:
  \<^item> \<^verbatim>\<open>REAL\<close> (float, double or long double, chosen in the absent
    \<^verbatim>\<open>QuEST_precision.h\<close>) is the type of real numbers, so every statement about
    \<^verbatim>\<open>REAL\<close> values is one of exact real arithmetic; rounding, infinities and NaN are
    not represented.
  \<^item> \<^verbatim>\<open>REAL_EPS\<close> (a macro of the same absent header) is a parameter of each
    function that uses it.
  \<^item> C integers are words of the LP64 widths: \<^verbatim>\<open>char\<close> 8 bits and signed,
    \<^verbatim>\<open>int\<close> 32 bits, \<^verbatim>\<open>long\<close>, \<^verbatim>\<open>long long\<close> and
    \<^verbatim>\<open>unsigned long\<close> 64 bits. An \<^verbatim>\<open>int\<close> that is only tested or passed on is
    a HOL integer.
  \<^item> Functions that print or end the process are state transformers over the text
    written to standard output, and return an outcome.
\<close>

subsection \<open>Processes: standard output, exit, undefined behaviour\<close>

datatype 'a outcome =
    Returned 'a    \<comment> \<open>the call returned to its caller\<close>
  | Exited int     \<comment> \<open>\<^verbatim>\<open>exit(status)\<close> was called: the process is gone\<close>
  | Undefined      \<comment> \<open>the C standard gives the execution no meaning\<close>

type_synonym 'a prog = "string \<Rightarrow> string \<times> 'a outcome"

definition newline :: char where
  "newline = CHR 0x0A"

definition return_c :: "'a \<Rightarrow> 'a prog" where
  "return_c v out = (out, Returned v)"

definition printf_c :: "string \<Rightarrow> unit prog" where
  "printf_c s out = (out @ s, Returned ())"

definition exit_c :: "int \<Rightarrow> 'a prog" where
  "exit_c status out = (out, Exited status)"

definition undefined_c :: "'a prog" where
  "undefined_c out = (out, Undefined)"

text \<open>Sequencing of statements: what follows a call runs only if the call returned.\<close>

definition then_c :: "'a prog \<Rightarrow> ('a \<Rightarrow> 'b prog) \<Rightarrow> 'b prog" where
  "then_c m k out =
     (case m out of
        (out', Returned v) \<Rightarrow> k v out'
      | (out', Exited status) \<Rightarrow> (out', Exited status)
      | (out', Undefined) \<Rightarrow> (out', Undefined))"

subsection \<open>Error reporting\<close>

definition errorCodes :: "string list" where
  "errorCodes =
    [''Success'',
     ''Invalid target qubit. Note qubits are zero indexed.'',
     ''Invalid control qubit. Note qubits are zero indexed.'',
     ''Control qubit cannot equal target qubit.'',
     ''Invalid number of control qubits'',
     ''Invalid unitary matrix.'',
     ''Invalid rotation arguments.'',
     ''Invalid system size. Cannot print output for systems greater than 5 qubits.'',
     ''Can't collapse to state with zero probability.'',
     ''Invalid number of qubits.'',
     ''Invalid measurement outcome -- must be either 0 or 1.'',
     ''Could not open file.'',
     ''Second argument must be a pure state, not a density matrix.'',
     ''Dimensions of the qubit registers do not match.'',
     ''This operation is only defined for density matrices.'',
     ''This operation is only defined for two pure states.'',
     ''An non-unitary internal operation (phaseShift) occured.'']"

text \<open>
  \<^verbatim>\<open>errorCodes[errorCode]\<close> reads a 17-element array: an index outside it is undefined
  behaviour. The first \<^verbatim>\<open>printf\<close> comes before the read, as in the source.
\<close>

definition exitWithError :: "int \<Rightarrow> string \<Rightarrow> 'a prog" where
  "exitWithError errorCode func =
     then_c (printf_c (''!!!'' @ [newline])) (\<lambda>_.
     if errorCode < 0 \<or> int (length errorCodes) \<le> errorCode then undefined_c
     else
       then_c (printf_c (''QuEST Error in function '' @ func @ '': ''
                          @ errorCodes ! nat errorCode @ [newline])) (\<lambda>_.
       then_c (printf_c (''!!!'' @ [newline])) (\<lambda>_.
       then_c (printf_c (''exiting..'' @ [newline])) (\<lambda>_.
       exit_c errorCode))))"

definition QuESTAssert :: "int \<Rightarrow> int \<Rightarrow> string \<Rightarrow> unit prog" where
  "QuESTAssert isValid errorCode func =
     (if isValid = 0 then exitWithError errorCode func else return_c ())"

text \<open>The text of a fatal error: the bordered banner, then the exit notice.\<close>

definition errorBanner :: "int \<Rightarrow> string \<Rightarrow> string" where
  "errorBanner errorCode func =
     ''!!!'' @ [newline]
     @ ''QuEST Error in function '' @ func @ '': '' @ errorCodes ! nat errorCode @ [newline]
     @ ''!!!'' @ [newline]
     @ ''exiting..'' @ [newline]"

subsection \<open>Complex numbers, matrices and vectors\<close>

text \<open>
  The structs of the absent \<^verbatim>\<open>QuEST.h\<close>, with the fields the source reads and
  writes. The fields \<^verbatim>\<open>real\<close>, \<^verbatim>\<open>imag\<close> of \<^verbatim>\<open>Complex\<close> and \<^verbatim>\<open>x\<close>,
  \<^verbatim>\<open>y\<close>, \<^verbatim>\<open>z\<close> of \<^verbatim>\<open>Vector\<close> carry a suffix.
\<close>

record Complex =
  real_c :: real
  imag_c :: real

record ComplexMatrix2 =
  r0c0 :: Complex
  r0c1 :: Complex
  r1c0 :: Complex
  r1c1 :: Complex

record Vector =
  x_v :: real
  y_v :: real
  z_v :: real

definition getConjugateScalar :: "Complex \<Rightarrow> Complex" where
  "getConjugateScalar scalar = \<lparr>real_c = real_c scalar, imag_c = - imag_c scalar\<rparr>"

definition getConjugateMatrix :: "ComplexMatrix2 \<Rightarrow> ComplexMatrix2" where
  "getConjugateMatrix matrix =
     \<lparr>r0c0 = getConjugateScalar (r0c0 matrix),
      r0c1 = getConjugateScalar (r0c1 matrix),
      r1c0 = getConjugateScalar (r1c0 matrix),
      r1c1 = getConjugateScalar (r1c1 matrix)\<rparr>"

subsection \<open>Validators\<close>

text \<open>
  Modelled from the spec: \<^verbatim>\<open>absReal\<close> is a macro of the absent
  \<^verbatim>\<open>QuEST_precision.h\<close>; the validators are specified with the absolute value.
\<close>

definition absReal :: "real \<Rightarrow> real" where
  "absReal v = \<bar>v\<bar>"

definition validateUnitComplex :: "real \<Rightarrow> Complex \<Rightarrow> int" where
  "validateUnitComplex REAL_EPS alpha =
     (if absReal (1 - sqrt (real_c alpha * real_c alpha + imag_c alpha * imag_c alpha)) < REAL_EPS
      then 1 else 0)"

definition validateAlphaBeta :: "real \<Rightarrow> Complex \<Rightarrow> Complex \<Rightarrow> int" where
  "validateAlphaBeta REAL_EPS alpha beta =
     (if absReal (real_c alpha * real_c alpha
                  + imag_c alpha * imag_c alpha
                  + real_c beta * real_c beta
                  + imag_c beta * imag_c beta - 1) > REAL_EPS then 0
      else 1)"

definition validateUnitVector :: "real \<Rightarrow> real \<Rightarrow> real \<Rightarrow> real \<Rightarrow> int" where
  "validateUnitVector REAL_EPS ux uy uz =
     (if absReal (sqrt (ux * ux + uy * uy + uz * uz) - 1) > REAL_EPS then 0
      else 1)"

definition validateMatrixIsUnitary :: "real \<Rightarrow> ComplexMatrix2 \<Rightarrow> int" where
  "validateMatrixIsUnitary REAL_EPS u =
     (if absReal (real_c (r0c0 u) * real_c (r0c0 u)
                  + imag_c (r0c0 u) * imag_c (r0c0 u)
                  + real_c (r1c0 u) * real_c (r1c0 u)
                  + imag_c (r1c0 u) * imag_c (r1c0 u) - 1) > REAL_EPS then 0
      else if absReal (real_c (r0c1 u) * real_c (r0c1 u)
                  + imag_c (r0c1 u) * imag_c (r0c1 u)
                  + real_c (r1c1 u) * real_c (r1c1 u)
                  + imag_c (r1c1 u) * imag_c (r1c1 u) - 1) > REAL_EPS then 0
      else if absReal (real_c (r0c0 u) * real_c (r0c1 u)
                  + imag_c (r0c0 u) * imag_c (r0c1 u)
                  + real_c (r1c0 u) * real_c (r1c1 u)
                  + imag_c (r1c0 u) * imag_c (r1c1 u)) > REAL_EPS then 0
      else if absReal (real_c (r0c1 u) * imag_c (r0c0 u)
                  - real_c (r0c0 u) * imag_c (r0c1 u)
                  + real_c (r1c1 u) * imag_c (r1c0 u)
                  - real_c (r1c0 u) * imag_c (r1c1 u)) > REAL_EPS then 0
      else 1)"

subsection \<open>Rotations\<close>

text \<open>
  \<^verbatim>\<open>pow(v, 2)\<close> is the square. Where the magnitude of the axis is zero the C code
  divides by zero and produces NaN components; every statement below about
  \<^verbatim>\<open>getAlphaBetaFromRotation\<close> is for an axis of non-zero magnitude.
  The out-parameters \<^verbatim>\<open>alpha\<close> and \<^verbatim>\<open>beta\<close> are the returned pair.
\<close>

definition getAlphaBetaFromRotation :: "real \<Rightarrow> Vector \<Rightarrow> Complex \<times> Complex" where
  "getAlphaBetaFromRotation angle axis =
     (let mag = sqrt ((x_v axis)\<^sup>2 + (y_v axis)\<^sup>2 + (z_v axis)\<^sup>2);
          unitAxis = \<lparr>x_v = x_v axis / mag, y_v = y_v axis / mag, z_v = z_v axis / mag\<rparr>;
          alpha = \<lparr>real_c = cos (angle / 2), imag_c = - sin (angle / 2) * z_v unitAxis\<rparr>;
          beta = \<lparr>real_c = sin (angle / 2) * y_v unitAxis,
                  imag_c = - sin (angle / 2) * x_v unitAxis\<rparr>
      in (alpha, beta))"

text \<open>
  The rotation gates hand their (alpha, beta) to \<^verbatim>\<open>pure_compactUnitary\<close>, a kernel
  of the hardware backends that is not part of this file: it is the first parameter.
\<close>

definition pure_rotateAroundAxis ::
  "('q \<Rightarrow> int \<Rightarrow> Complex \<Rightarrow> Complex \<Rightarrow> 'r) \<Rightarrow> 'q \<Rightarrow> int \<Rightarrow> real \<Rightarrow> Vector \<Rightarrow> 'r" where
  "pure_rotateAroundAxis pure_compactUnitary qureg rotQubit angle axis =
     (let (alpha, beta) = getAlphaBetaFromRotation angle axis
      in pure_compactUnitary qureg rotQubit alpha beta)"

definition pure_rotateAroundAxisConj ::
  "('q \<Rightarrow> int \<Rightarrow> Complex \<Rightarrow> Complex \<Rightarrow> 'r) \<Rightarrow> 'q \<Rightarrow> int \<Rightarrow> real \<Rightarrow> Vector \<Rightarrow> 'r" where
  "pure_rotateAroundAxisConj pure_compactUnitary qureg rotQubit angle axis =
     (let (alpha, beta) = getAlphaBetaFromRotation angle axis;
          alpha = alpha\<lparr>imag_c := imag_c alpha * (- 1)\<rparr>;
          beta = beta\<lparr>imag_c := imag_c beta * (- 1)\<rparr>
      in pure_compactUnitary qureg rotQubit alpha beta)"

text \<open>
  Modelled from the spec: \<^verbatim>\<open>pure_compactUnitary\<close> is absent from the sources. The
  pair (alpha, beta) is "the canonical parameterization of a single-qubit unitary
  equivalent to a ComplexMatrix2": the matrix with rows (alpha, - conj beta) and
  (beta, conj alpha). The kernel below applies nothing; it answers with that matrix.
\<close>

definition compactUnitaryMatrix :: "Complex \<Rightarrow> Complex \<Rightarrow> ComplexMatrix2" where
  "compactUnitaryMatrix alpha beta =
     \<lparr>r0c0 = alpha,
      r0c1 = \<lparr>real_c = - real_c beta, imag_c = imag_c beta\<rparr>,
      r1c0 = beta,
      r1c1 = \<lparr>real_c = real_c alpha, imag_c = - imag_c alpha\<rparr>\<rparr>"

definition unitaryOfCall :: "'q \<Rightarrow> int \<Rightarrow> Complex \<Rightarrow> Complex \<Rightarrow> ComplexMatrix2" where
  "unitaryOfCall qureg rotQubit alpha beta = compactUnitaryMatrix alpha beta"

subsection \<open>Matrix algebra used to state the properties\<close>

definition complexAdd :: "Complex \<Rightarrow> Complex \<Rightarrow> Complex" where
  "complexAdd a b = \<lparr>real_c = real_c a + real_c b, imag_c = imag_c a + imag_c b\<rparr>"

definition complexMul :: "Complex \<Rightarrow> Complex \<Rightarrow> Complex" where
  "complexMul a b =
     \<lparr>real_c = real_c a * real_c b - imag_c a * imag_c b,
      imag_c = real_c a * imag_c b + imag_c a * real_c b\<rparr>"

definition matrixMul :: "ComplexMatrix2 \<Rightarrow> ComplexMatrix2 \<Rightarrow> ComplexMatrix2" where
  "matrixMul a b =
     \<lparr>r0c0 = complexAdd (complexMul (r0c0 a) (r0c0 b)) (complexMul (r0c1 a) (r1c0 b)),
      r0c1 = complexAdd (complexMul (r0c0 a) (r0c1 b)) (complexMul (r0c1 a) (r1c1 b)),
      r1c0 = complexAdd (complexMul (r1c0 a) (r0c0 b)) (complexMul (r1c1 a) (r1c0 b)),
      r1c1 = complexAdd (complexMul (r1c0 a) (r0c1 b)) (complexMul (r1c1 a) (r1c1 b))\<rparr>"

definition matrixTranspose :: "ComplexMatrix2 \<Rightarrow> ComplexMatrix2" where
  "matrixTranspose a = \<lparr>r0c0 = r0c0 a, r0c1 = r1c0 a, r1c0 = r0c1 a, r1c1 = r1c1 a\<rparr>"

definition complexWithin :: "real \<Rightarrow> Complex \<Rightarrow> Complex \<Rightarrow> bool" where
  "complexWithin epsilon a b \<longleftrightarrow>
     \<bar>real_c a - real_c b\<bar> \<le> epsilon \<and> \<bar>imag_c a - imag_c b\<bar> \<le> epsilon"

definition matrixWithin :: "real \<Rightarrow> ComplexMatrix2 \<Rightarrow> ComplexMatrix2 \<Rightarrow> bool" where
  "matrixWithin epsilon a b \<longleftrightarrow>
     complexWithin epsilon (r0c0 a) (r0c0 b) \<and> complexWithin epsilon (r0c1 a) (r0c1 b)
     \<and> complexWithin epsilon (r1c0 a) (r1c0 b) \<and> complexWithin epsilon (r1c1 a) (r1c1 b)"

definition complexOf :: "real \<Rightarrow> real \<Rightarrow> Complex" where
  "complexOf re im = \<lparr>real_c = re, imag_c = im\<rparr>"

definition identityMatrix :: ComplexMatrix2 where
  "identityMatrix =
     \<lparr>r0c0 = complexOf 1 0, r0c1 = complexOf 0 0, r1c0 = complexOf 0 0, r1c1 = complexOf 1 0\<rparr>"

definition pauliX :: ComplexMatrix2 where
  "pauliX =
     \<lparr>r0c0 = complexOf 0 0, r0c1 = complexOf 1 0, r1c0 = complexOf 1 0, r1c1 = complexOf 0 0\<rparr>"

definition pauliY :: ComplexMatrix2 where
  "pauliY =
     \<lparr>r0c0 = complexOf 0 0, r0c1 = complexOf 0 (- 1), r1c0 = complexOf 0 1, r1c1 = complexOf 0 0\<rparr>"

definition pauliZ :: ComplexMatrix2 where
  "pauliZ =
     \<lparr>r0c0 = complexOf 1 0, r0c1 = complexOf 0 0, r1c0 = complexOf 0 0, r1c1 = complexOf (- 1) 0\<rparr>"

definition complexScale :: "real \<Rightarrow> Complex \<Rightarrow> Complex" where
  "complexScale k a = \<lparr>real_c = k * real_c a, imag_c = k * imag_c a\<rparr>"

definition scaleColumn0 :: "real \<Rightarrow> ComplexMatrix2 \<Rightarrow> ComplexMatrix2" where
  "scaleColumn0 k u = u\<lparr>r0c0 := complexScale k (r0c0 u), r1c0 := complexScale k (r1c0 u)\<rparr>"

definition scaleColumn1 :: "real \<Rightarrow> ComplexMatrix2 \<Rightarrow> ComplexMatrix2" where
  "scaleColumn1 k u = u\<lparr>r0c1 := complexScale k (r0c1 u), r1c1 := complexScale k (r1c1 u)\<rparr>"

text \<open>
  A \<^verbatim>\<open>Complex\<close> as a complex number of HOL, and the inner product of the two columns
  of a matrix (conjugate-linear in column 0).
\<close>

definition toComplex :: "Complex \<Rightarrow> complex" where
  "toComplex a = Complex.Complex (real_c a) (imag_c a)"

definition columnInner :: "ComplexMatrix2 \<Rightarrow> complex" where
  "columnInner u =
     cnj (toComplex (r0c0 u)) * toComplex (r0c1 u) + cnj (toComplex (r1c0 u)) * toComplex (r1c1 u)"

definition column0NormSq :: "ComplexMatrix2 \<Rightarrow> real" where
  "column0NormSq u = (cmod (toComplex (r0c0 u)))\<^sup>2 + (cmod (toComplex (r1c0 u)))\<^sup>2"

definition column1NormSq :: "ComplexMatrix2 \<Rightarrow> real" where
  "column1NormSq u = (cmod (toComplex (r0c1 u)))\<^sup>2 + (cmod (toComplex (r1c1 u)))\<^sup>2"

subsection \<open>Hashing a string\<close>

text \<open>
  The argument is the bytes in memory from \<^verbatim>\<open>str\<close> on. The loop reads up to the
  first null byte; where the bytes end before one, the C code reads past the object and
  the result is \<open>None\<close>. \<^verbatim>\<open>c = *str++\<close> converts a signed \<^verbatim>\<open>char\<close> to
  \<^verbatim>\<open>int\<close>, and the addition converts that \<^verbatim>\<open>int\<close> to \<^verbatim>\<open>unsigned long\<close>:
  two sign extensions. \<^verbatim>\<open>hash << 5\<close> is \<open>push_bit 5 hash\<close>.
\<close>

fun hashString_loop :: "64 word \<Rightarrow> 8 word list \<Rightarrow> 64 word option" where
  "hashString_loop hash [] = None"
| "hashString_loop hash (b # str) =
     (let c = (scast b :: 32 word)
      in if c = 0 then Some hash
         else hashString_loop ((push_bit 5 hash + hash) + scast c) str)"

definition hashString :: "8 word list \<Rightarrow> 64 word option" where
  "hashString str = hashString_loop 5381 str"

subsection \<open>The qubit register\<close>

text \<open>
  Modelled from the spec: \<^verbatim>\<open>QubitRegister\<close> is declared in the absent
  \<^verbatim>\<open>QuEST.h\<close>. These are the fields of the DistributedStateVector of the data model
  that this file reads, with the C types it reads them at: \<^verbatim>\<open>int\<close> for
  \<^verbatim>\<open>numQubits\<close>, \<^verbatim>\<open>chunkId\<close> and \<^verbatim>\<open>numChunks\<close>, \<^verbatim>\<open>long long int\<close>
  for \<^verbatim>\<open>numAmpsPerChunk\<close>. All four are signed: \<open>sint\<close> reads them.
\<close>

record QubitRegister =
  numQubits :: "32 word"
  numAmpsPerChunk :: "64 word"
  chunkId :: "32 word"
  numChunks :: "32 word"

text \<open>The invariant of the data model: the chunks partition the \<open>2 ^ numQubits\<close> amplitudes.\<close>

definition registerInvariant :: "QubitRegister \<Rightarrow> bool" where
  "registerInvariant qureg \<longleftrightarrow>
     0 \<le> sint (numQubits qureg)
     \<and> 0 < sint (numChunks qureg)
     \<and> 0 \<le> sint (chunkId qureg) \<and> sint (chunkId qureg) < sint (numChunks qureg)
     \<and> 0 < sint (numAmpsPerChunk qureg)
     \<and> sint (numAmpsPerChunk qureg) * sint (numChunks qureg) = 2 ^ nat (sint (numQubits qureg))"

definition pure_getNumQubits :: "QubitRegister \<Rightarrow> 32 word" where
  "pure_getNumQubits qureg = numQubits qureg"

text \<open>
  The product is computed in \<^verbatim>\<open>long long\<close>, where an overflow is undefined
  (\<open>None\<close>), and returned as \<^verbatim>\<open>int\<close>: a product outside the range of
  \<^verbatim>\<open>int\<close> is converted as gcc and clang define it, modulo \<open>2 ^ 32\<close>.
\<close>

definition pure_getNumAmps :: "QubitRegister \<Rightarrow> 32 word option" where
  "pure_getNumAmps qureg =
     (let product = sint (numAmpsPerChunk qureg) * sint (numChunks qureg)
      in if product < - (2 ^ 63) \<or> 2 ^ 63 \<le> product then None
         else Some (word_of_int product))"

subsection \<open>Reporting the register parameters\<close>

text \<open>The conversions \<^verbatim>\<open>%d\<close> and \<^verbatim>\<open>%lld\<close> of \<^verbatim>\<open>printf\<close>: decimal digits, with a sign.\<close>

definition digit :: "nat \<Rightarrow> char" where
  "digit d = ''0123456789'' ! d"

fun digits :: "nat \<Rightarrow> string" where
  "digits n = (if n < 10 then [digit n] else digits (n div 10) @ [digit (n mod 10)])"

declare digits.simps [simp del]

definition decimal :: "int \<Rightarrow> string" where
  "decimal i = (if i < 0 then ''-'' @ digits (nat (- i)) else digits (nat i))"

text \<open>
  \<^verbatim>\<open>1L << numQubits\<close> is undefined for a negative shift, for a shift of 64 or more and
  for 63, where the result is not a \<^verbatim>\<open>long\<close>; the division is undefined for zero chunks
  and truncates towards zero. Both are computed before \<^verbatim>\<open>chunkId\<close> is tested.
\<close>

definition reportQubitRegisterParams :: "QubitRegister \<Rightarrow> unit prog" where
  "reportQubitRegisterParams qureg =
     (if sint (numQubits qureg) < 0 \<or> 63 \<le> sint (numQubits qureg) then undefined_c
      else
        let numAmps = (2 :: int) ^ nat (sint (numQubits qureg))
        in if sint (numChunks qureg) = 0 then undefined_c
           else
             let numAmpsPerRank = numAmps sdiv sint (numChunks qureg)
             in if chunkId qureg = 0 then
                  then_c (printf_c (''QUBITS:'' @ [newline])) (\<lambda>_.
                  then_c (printf_c (''Number of qubits is ''
                                     @ decimal (sint (numQubits qureg)) @ ''.'' @ [newline])) (\<lambda>_.
                  then_c (printf_c (''Number of amps is ''
                                     @ decimal numAmps @ ''.'' @ [newline])) (\<lambda>_.
                  printf_c (''Number of amps per rank is ''
                            @ decimal numAmpsPerRank @ ''.'' @ [newline]))))
                else return_c ())"

text \<open>The text of the report: the heading and the three lines.\<close>

definition reportText :: "QubitRegister \<Rightarrow> string" where
  "reportText qureg =
     ''QUBITS:'' @ [newline]
     @ ''Number of qubits is '' @ decimal (sint (numQubits qureg)) @ ''.'' @ [newline]
     @ ''Number of amps is '' @ decimal (2 ^ nat (sint (numQubits qureg))) @ ''.'' @ [newline]
     @ ''Number of amps per rank is ''
     @ decimal (2 ^ nat (sint (numQubits qureg)) div sint (numChunks qureg)) @ ''.'' @ [newline]"

section \<open>Properties\<close>

subsection \<open>Error reporting\<close>

lemma length_errorCodes: "length errorCodes = 17"
  by (simp add: errorCodes_def)

lemma exitWithError_in_catalog:
  assumes "0 \<le> errorCode" and "errorCode \<le> 16"
  shows "exitWithError errorCode func out = (out @ errorBanner errorCode func, Exited errorCode)"
  using assms
  by (simp add: exitWithError_def then_c_def printf_c_def exit_c_def errorBanner_def
      length_errorCodes)

text \<open>
  Claim C5. When \<^verbatim>\<open>isValid\<close> is false (zero) and the error kind is one of the 17 of
  the catalog, \<^verbatim>\<open>QuESTAssert\<close> appends to standard output the line \<^verbatim>\<open>!!!\<close>, the line
  \<^verbatim>\<open>QuEST Error in function <func>: <catalog message of the kind>\<close>, the line
  \<^verbatim>\<open>!!!\<close> and the line \<^verbatim>\<open>exiting..\<close>, and ends the process with the kind as exit
  status; whatever statements follow the call, they do not run: the outcome and the
  output of the sequence are those of the call alone.
\<close>

theorem QuESTAssert_false_exits:
  assumes "isValid = 0" and "0 \<le> errorCode" and "errorCode \<le> 16"
  shows "QuESTAssert isValid errorCode func out
           = (out @ ''!!!'' @ [newline]
                  @ ''QuEST Error in function '' @ func @ '': ''
                  @ errorCodes ! nat errorCode @ [newline]
                  @ ''!!!'' @ [newline]
                  @ ''exiting..'' @ [newline],
              Exited errorCode)
         \<and> then_c (QuESTAssert isValid errorCode func) rest out
           = (out @ errorBanner errorCode func, Exited errorCode)"
proof -
  have call: "QuESTAssert isValid errorCode func out
                = (out @ errorBanner errorCode func, Exited errorCode)"
    using assms by (simp add: QuESTAssert_def exitWithError_in_catalog)
  have "then_c (QuESTAssert isValid errorCode func) rest out
          = (out @ errorBanner errorCode func, Exited errorCode)"
    by (simp add: then_c_def call)
  with call show ?thesis
    by (simp add: errorBanner_def)
qed

theorem QuESTAssert_false_exits_witness:
  "QuESTAssert 0 5 ''someFunc'' []
     = (''!!!'' @ [newline]
        @ ''QuEST Error in function someFunc: Invalid unitary matrix.'' @ [newline]
        @ ''!!!'' @ [newline]
        @ ''exiting..'' @ [newline],
        Exited 5)
   \<and> then_c (QuESTAssert 0 5 ''someFunc'') (\<lambda>_. printf_c ''after the call'') []
     = (''!!!'' @ [newline]
        @ ''QuEST Error in function someFunc: Invalid unitary matrix.'' @ [newline]
        @ ''!!!'' @ [newline]
        @ ''exiting..'' @ [newline],
        Exited 5)"
  using QuESTAssert_false_exits [of 0 5 "''someFunc''" "[]" "\<lambda>_. printf_c ''after the call''"]
  by (simp add: errorBanner_def errorCodes_def)

text \<open>
  Claim C10. With a true (non-zero) \<^verbatim>\<open>isValid\<close>, whatever the error kind and the
  function name, \<^verbatim>\<open>QuESTAssert\<close> returns to its caller with standard output as it
  was, and the statements after the call run from that same state.
\<close>

theorem QuESTAssert_true_returns:
  assumes "isValid \<noteq> 0"
  shows "QuESTAssert isValid errorCode func out = (out, Returned ())
         \<and> then_c (QuESTAssert isValid errorCode func) rest out = rest () out"
  using assms by (simp add: QuESTAssert_def return_c_def then_c_def)

theorem QuESTAssert_true_returns_witness:
  "QuESTAssert 1 5 ''someFunc'' ''so far'' = (''so far'', Returned ())
   \<and> then_c (QuESTAssert 1 5 ''someFunc'') (\<lambda>_. printf_c '', and on'') ''so far''
     = (''so far, and on'', Returned ())"
  using QuESTAssert_true_returns [of 1 5 "''someFunc''" "''so far''" "\<lambda>_. printf_c '', and on''"]
  by (simp add: printf_c_def)

subsection \<open>Hashing a string\<close>

lemma hash_times_33: "push_bit 5 (hash :: 64 word) + hash = hash * 33"
  by (simp add: push_bit_eq_mult)

lemma char_to_int_is_up: "is_up (scast :: 8 word \<Rightarrow> 32 word)"
  by (simp add: is_up_def source_size target_size)

lemma char_zero: "(scast (b :: 8 word) :: 32 word) = 0 \<longleftrightarrow> b = 0"
proof
  assume "(scast b :: 32 word) = 0"
  then have "(scast (scast b :: 32 word) :: 8 word) = scast (0 :: 32 word)"
    by simp
  then show "b = 0"
    by (simp add: scast_up_scast_id char_to_int_is_up)
qed simp

lemma char_to_ulong: "(scast (scast (b :: 8 word) :: 32 word) :: 64 word) = scast b"
  by (simp add: scast_up_scast char_to_int_is_up)

lemma ascii_char_value:
  assumes "(b :: 8 word) < 128"
  shows "(scast b :: 64 word) = ucast b"
proof -
  have "uint b < 128"
    using assms by (simp add: word_less_def)
  then have hi: "uint b < 2 ^ 7"
    by simp
  have lo: "- (2 ^ 7) \<le> uint b"
    by (rule order_trans [of _ 0]) simp_all
  from lo hi have "signed_take_bit 7 (uint b) = uint b"
    by (rule signed_take_bit_int_eq_self)
  then have su: "sint b = uint b"
    by (simp add: sint_uint)
  show ?thesis
    by (simp only: scast_eq ucast_eq su)
qed

lemma hashString_loop_terminated:
  assumes "0 \<notin> set s"
  shows "hashString_loop hash (s @ 0 # rest) = Some (foldl (\<lambda>h c. h * 33 + scast c) hash s)"
  using assms
proof (induction s arbitrary: hash)
  case Nil
  show ?case by simp
next
  case (Cons b s)
  then have "b \<noteq> 0" and "0 \<notin> set s"
    by auto
  with Cons.IH show ?case
    by (simp add: char_zero char_to_ulong hash_times_33)
qed

lemma foldl_ascii:
  assumes "\<forall>b\<in>set s. b < 128"
  shows "foldl (\<lambda>h c. h * 33 + scast c) (hash :: 64 word) s
         = foldl (\<lambda>h (c :: 8 word). h * 33 + ucast c) hash s"
  using assms by (induction s arbitrary: hash) (simp_all add: ascii_char_value)

text \<open>
  Claim C9. On the bytes \<open>s\<close> (none of them null) followed by a null byte,
  \<^verbatim>\<open>hashString\<close> returns the value reached from 5381 by the update
  \<open>hash * 33 + c\<close> for each \<^verbatim>\<open>char\<close> \<open>c\<close> in turn, in arithmetic modulo
  \<open>2 ^ 64\<close>, where \<open>c\<close> is converted as C converts a \<^verbatim>\<open>char\<close>; for bytes
  below 128 that is the byte's value. On the empty string the result is 5381. The result
  is a function of the bytes up to the terminator alone: what lies behind it in memory
  does not change it.
\<close>

theorem hashString_djb2:
  assumes "0 \<notin> set s"
  shows "hashString (s @ 0 # rest) = Some (foldl (\<lambda>hash c. hash * 33 + scast c) 5381 s)
         \<and> ((\<forall>b\<in>set s. b < 128) \<longrightarrow>
              hashString (s @ 0 # rest) = Some (foldl (\<lambda>hash c. hash * 33 + ucast c) 5381 s))
         \<and> hashString (0 # rest) = Some 5381
         \<and> hashString (s @ 0 # rest') = hashString (s @ 0 # rest)"
  using assms
  by (simp add: hashString_def hashString_loop_terminated foldl_ascii)

theorem hashString_djb2_witness:
  "hashString [97, 98, 99, 0, 100] = Some 193485963
   \<and> hashString [0, 100] = Some 5381
   \<and> hashString [97, 98, 99, 0] = hashString [97, 98, 99, 0, 100]"
  using hashString_djb2 [of "[97, 98, 99]" "[100]" "[]"]
  by simp

subsection \<open>Rotations\<close>

lemma sum_squares_pos:
  fixes a b c :: real
  assumes "a \<noteq> 0 \<or> b \<noteq> 0 \<or> c \<noteq> 0"
  shows "0 < a\<^sup>2 + b\<^sup>2 + c\<^sup>2"
proof -
  have "0 \<le> a\<^sup>2" "0 \<le> b\<^sup>2" "0 \<le> c\<^sup>2"
    by simp_all
  moreover have "0 < a\<^sup>2 \<or> 0 < b\<^sup>2 \<or> 0 < c\<^sup>2"
    using assms by simp
  ultimately show ?thesis
    by linarith
qed

lemma unit_axis_norm:
  fixes a b c :: real
  assumes "a \<noteq> 0 \<or> b \<noteq> 0 \<or> c \<noteq> 0"
  shows "(a / sqrt (a\<^sup>2 + b\<^sup>2 + c\<^sup>2))\<^sup>2 + (b / sqrt (a\<^sup>2 + b\<^sup>2 + c\<^sup>2))\<^sup>2
         + (c / sqrt (a\<^sup>2 + b\<^sup>2 + c\<^sup>2))\<^sup>2 = 1"
proof -
  define r where "r = sqrt (a\<^sup>2 + b\<^sup>2 + c\<^sup>2)"
  have pos: "0 < a\<^sup>2 + b\<^sup>2 + c\<^sup>2"
    using assms by (rule sum_squares_pos)
  then have r2: "r\<^sup>2 = a\<^sup>2 + b\<^sup>2 + c\<^sup>2"
    by (simp add: r_def)
  have "(a / r)\<^sup>2 + (b / r)\<^sup>2 + (c / r)\<^sup>2 = (a\<^sup>2 + b\<^sup>2 + c\<^sup>2) / r\<^sup>2"
    by (simp add: power_divide add_divide_distrib)
  also have "\<dots> = 1"
    using pos by (simp add: r2)
  finally show ?thesis
    by (simp add: r_def)
qed

lemma rotation_norm:
  fixes c s ux uy uz :: real
  assumes "ux\<^sup>2 + uy\<^sup>2 + uz\<^sup>2 = 1" and "c\<^sup>2 + s\<^sup>2 = 1"
  shows "c\<^sup>2 + (- s * uz)\<^sup>2 + (s * uy)\<^sup>2 + (- s * ux)\<^sup>2 = 1"
proof -
  have "c\<^sup>2 + (- s * uz)\<^sup>2 + (s * uy)\<^sup>2 + (- s * ux)\<^sup>2 = c\<^sup>2 + s\<^sup>2 * (ux\<^sup>2 + uy\<^sup>2 + uz\<^sup>2)"
    by (simp add: power_mult_distrib distrib_left)
  also have "\<dots> = 1"
    using assms by simp
  finally show ?thesis .
qed

lemma alpha_beta_squares:
  assumes "x_v axis \<noteq> 0 \<or> y_v axis \<noteq> 0 \<or> z_v axis \<noteq> 0"
    and "getAlphaBetaFromRotation angle axis = (alpha, beta)"
  shows "(real_c alpha)\<^sup>2 + (imag_c alpha)\<^sup>2 + (real_c beta)\<^sup>2 + (imag_c beta)\<^sup>2 = 1"
proof -
  define m where "m = sqrt ((x_v axis)\<^sup>2 + (y_v axis)\<^sup>2 + (z_v axis)\<^sup>2)"
  have u: "(x_v axis / m)\<^sup>2 + (y_v axis / m)\<^sup>2 + (z_v axis / m)\<^sup>2 = 1"
    unfolding m_def using assms(1) by (rule unit_axis_norm)
  have cs: "(cos (angle / 2))\<^sup>2 + (sin (angle / 2))\<^sup>2 = 1"
    by (simp add: add.commute)
  have "(cos (angle / 2))\<^sup>2 + (- sin (angle / 2) * (z_v axis / m))\<^sup>2
        + (sin (angle / 2) * (y_v axis / m))\<^sup>2 + (- sin (angle / 2) * (x_v axis / m))\<^sup>2 = 1"
    using u cs by (rule rotation_norm)
  then show ?thesis
    using assms(2) by (auto simp add: getAlphaBetaFromRotation_def Let_def m_def)
qed

lemma cmod_toComplex_sq:
  "(cmod (toComplex a))\<^sup>2 = real_c a * real_c a + imag_c a * imag_c a"
  unfolding toComplex_def cmod_power2 by (simp add: power2_eq_square)

text \<open>
  Claim C1. For every angle and every axis that is not the zero vector, the magnitude of
  the axis is positive, the axis divided by it componentwise has unit length, and
  \<^verbatim>\<open>getAlphaBetaFromRotation\<close> returns
  alpha = (cos(angle/2), - sin(angle/2) * unitAxis.z) and
  beta = (sin(angle/2) * unitAxis.y, - sin(angle/2) * unitAxis.x); for the axis (0, 0, 1)
  it returns alpha = (cos(angle/2), - sin(angle/2)) and beta = (0, 0).
\<close>

theorem getAlphaBetaFromRotation_formula:
  assumes "x_v axis \<noteq> 0 \<or> y_v axis \<noteq> 0 \<or> z_v axis \<noteq> 0"
  shows "(let mag = sqrt ((x_v axis)\<^sup>2 + (y_v axis)\<^sup>2 + (z_v axis)\<^sup>2);
              unitAxis = \<lparr>x_v = x_v axis / mag, y_v = y_v axis / mag, z_v = z_v axis / mag\<rparr>
          in 0 < mag
             \<and> (x_v unitAxis)\<^sup>2 + (y_v unitAxis)\<^sup>2 + (z_v unitAxis)\<^sup>2 = 1
             \<and> getAlphaBetaFromRotation angle axis
               = (\<lparr>real_c = cos (angle / 2), imag_c = - sin (angle / 2) * z_v unitAxis\<rparr>,
                  \<lparr>real_c = sin (angle / 2) * y_v unitAxis,
                   imag_c = - sin (angle / 2) * x_v unitAxis\<rparr>))
         \<and> getAlphaBetaFromRotation angle \<lparr>x_v = 0, y_v = 0, z_v = 1\<rparr>
           = (\<lparr>real_c = cos (angle / 2), imag_c = - sin (angle / 2)\<rparr>,
              \<lparr>real_c = 0, imag_c = 0\<rparr>)"
proof -
  have pos: "0 < (x_v axis)\<^sup>2 + (y_v axis)\<^sup>2 + (z_v axis)\<^sup>2"
    using assms by (rule sum_squares_pos)
  have unit: "(x_v axis / sqrt ((x_v axis)\<^sup>2 + (y_v axis)\<^sup>2 + (z_v axis)\<^sup>2))\<^sup>2
              + (y_v axis / sqrt ((x_v axis)\<^sup>2 + (y_v axis)\<^sup>2 + (z_v axis)\<^sup>2))\<^sup>2
              + (z_v axis / sqrt ((x_v axis)\<^sup>2 + (y_v axis)\<^sup>2 + (z_v axis)\<^sup>2))\<^sup>2 = 1"
    using assms by (rule unit_axis_norm)
  have zaxis: "getAlphaBetaFromRotation angle \<lparr>x_v = 0, y_v = 0, z_v = 1\<rparr>
           = (\<lparr>real_c = cos (angle / 2), imag_c = - sin (angle / 2)\<rparr>,
              \<lparr>real_c = 0, imag_c = 0\<rparr>)"
    by (simp add: getAlphaBetaFromRotation_def)
  from pos unit zaxis show ?thesis
    by (simp add: getAlphaBetaFromRotation_def Let_def)
qed

theorem getAlphaBetaFromRotation_formula_witness:
  "getAlphaBetaFromRotation pi \<lparr>x_v = 0, y_v = 3, z_v = 4\<rparr>
     = (\<lparr>real_c = 0, imag_c = - (4 / 5)\<rparr>, \<lparr>real_c = 3 / 5, imag_c = 0\<rparr>)
   \<and> getAlphaBetaFromRotation pi \<lparr>x_v = 0, y_v = 0, z_v = 1\<rparr>
     = (\<lparr>real_c = 0, imag_c = - 1\<rparr>, \<lparr>real_c = 0, imag_c = 0\<rparr>)"
proof -
  have s: "sqrt 25 = 5"
    by (simp add: real_sqrt_unique)
  show ?thesis
    using getAlphaBetaFromRotation_formula [of "\<lparr>x_v = 0, y_v = 3, z_v = 4\<rparr>" pi]
    by (simp add: Let_def s)
qed

text \<open>
  Claim C3. For every angle and every axis that is not the zero vector, the pair
  (alpha, beta) returned by \<^verbatim>\<open>getAlphaBetaFromRotation\<close> has
  |alpha|^2 + |beta|^2 = 1, in exact real arithmetic.
\<close>

theorem getAlphaBetaFromRotation_normalised:
  assumes "x_v axis \<noteq> 0 \<or> y_v axis \<noteq> 0 \<or> z_v axis \<noteq> 0"
  shows "(cmod (toComplex (fst (getAlphaBetaFromRotation angle axis))))\<^sup>2
         + (cmod (toComplex (snd (getAlphaBetaFromRotation angle axis))))\<^sup>2 = 1"
proof -
  obtain alpha beta where ab: "getAlphaBetaFromRotation angle axis = (alpha, beta)"
    by (cases "getAlphaBetaFromRotation angle axis")
  have "(real_c alpha)\<^sup>2 + (imag_c alpha)\<^sup>2 + (real_c beta)\<^sup>2 + (imag_c beta)\<^sup>2 = 1"
    using assms ab by (rule alpha_beta_squares)
  then show ?thesis
    by (simp add: ab toComplex_def cmod_power2)
qed

theorem getAlphaBetaFromRotation_normalised_witness:
  "(cmod (toComplex (fst (getAlphaBetaFromRotation pi \<lparr>x_v = 0, y_v = 3, z_v = 4\<rparr>))))\<^sup>2
   + (cmod (toComplex (snd (getAlphaBetaFromRotation pi \<lparr>x_v = 0, y_v = 3, z_v = 4\<rparr>))))\<^sup>2 = 1"
  using getAlphaBetaFromRotation_normalised [of "\<lparr>x_v = 0, y_v = 3, z_v = 4\<rparr>" pi]
  by simp

text \<open>
  The algebra on \<^verbatim>\<open>Complex\<close> records is that of the complex numbers, and
  \<^verbatim>\<open>getConjugateScalar\<close> is complex conjugation.
\<close>

lemma toComplex_complexAdd: "toComplex (complexAdd a b) = toComplex a + toComplex b"
  by (simp add: toComplex_def complexAdd_def complex_eq_iff)

lemma toComplex_complexMul: "toComplex (complexMul a b) = toComplex a * toComplex b"
  by (simp add: toComplex_def complexMul_def complex_eq_iff)

lemma toComplex_getConjugateScalar: "toComplex (getConjugateScalar a) = cnj (toComplex a)"
  by (simp add: toComplex_def getConjugateScalar_def complex_eq_iff)

lemma compactUnitaryMatrix_entries:
  "toComplex (r0c0 (compactUnitaryMatrix alpha beta)) = toComplex alpha"
  "toComplex (r0c1 (compactUnitaryMatrix alpha beta)) = - cnj (toComplex beta)"
  "toComplex (r1c0 (compactUnitaryMatrix alpha beta)) = toComplex beta"
  "toComplex (r1c1 (compactUnitaryMatrix alpha beta)) = cnj (toComplex alpha)"
  by (simp_all add: toComplex_def compactUnitaryMatrix_def complex_eq_iff)

lemma compactUnitary_adjoint:
  assumes "(real_c alpha)\<^sup>2 + (imag_c alpha)\<^sup>2 + (real_c beta)\<^sup>2 + (imag_c beta)\<^sup>2 = 1"
  shows "matrixMul (matrixTranspose (getConjugateMatrix (compactUnitaryMatrix alpha beta)))
                   (compactUnitaryMatrix alpha beta) = identityMatrix"
    and "matrixMul (compactUnitaryMatrix alpha beta)
                   (matrixTranspose (getConjugateMatrix (compactUnitaryMatrix alpha beta)))
           = identityMatrix"
proof -
  have n: "real_c alpha * real_c alpha + imag_c alpha * imag_c alpha
           + real_c beta * real_c beta + imag_c beta * imag_c beta = 1"
    using assms by (simp add: power2_eq_square)
  then have n': "real_c alpha * real_c alpha + imag_c alpha * imag_c alpha
           + (real_c beta * real_c beta + imag_c beta * imag_c beta) = 1"
    "real_c beta * real_c beta + imag_c beta * imag_c beta
           + (real_c alpha * real_c alpha + imag_c alpha * imag_c alpha) = 1"
    by linarith+
  show "matrixMul (matrixTranspose (getConjugateMatrix (compactUnitaryMatrix alpha beta)))
                   (compactUnitaryMatrix alpha beta) = identityMatrix"
    using n' by (simp add: matrixMul_def matrixTranspose_def getConjugateMatrix_def
        getConjugateScalar_def compactUnitaryMatrix_def identityMatrix_def complexOf_def
        complexAdd_def complexMul_def)
  show "matrixMul (compactUnitaryMatrix alpha beta)
                   (matrixTranspose (getConjugateMatrix (compactUnitaryMatrix alpha beta)))
           = identityMatrix"
    using n' by (simp add: matrixMul_def matrixTranspose_def getConjugateMatrix_def
        getConjugateScalar_def compactUnitaryMatrix_def identityMatrix_def complexOf_def
        complexAdd_def complexMul_def)
qed

lemma conj_call_is_conjugate:
  "pure_rotateAroundAxisConj unitaryOfCall qureg rotQubit angle axis
     = getConjugateMatrix (pure_rotateAroundAxis unitaryOfCall qureg rotQubit angle axis)"
  by (simp add: pure_rotateAroundAxisConj_def pure_rotateAroundAxis_def unitaryOfCall_def
      compactUnitaryMatrix_def getConjugateMatrix_def getConjugateScalar_def
      split: prod.split)

text \<open>
  Claim C2, as stated, fails. For the angle pi about the axis (0, 1, 0) both
  \<^verbatim>\<open>pure_rotateAroundAxis\<close> and \<^verbatim>\<open>pure_rotateAroundAxisConj\<close> hand the kernel
  alpha = (0, 0) and beta = (1, 0), the real matrix with rows (0, -1) and (1, 0); its
  product with itself, in either order, is minus the identity, which is not within
  tolerance 1 of the identity matrix.
\<close>

theorem rotateAroundAxisConj_not_inverse:
  "pure_rotateAroundAxis unitaryOfCall () 0 pi \<lparr>x_v = 0, y_v = 1, z_v = 0\<rparr>
     = \<lparr>r0c0 = complexOf 0 0, r0c1 = complexOf (- 1) 0,
        r1c0 = complexOf 1 0, r1c1 = complexOf 0 0\<rparr>
   \<and> pure_rotateAroundAxisConj unitaryOfCall () 0 pi \<lparr>x_v = 0, y_v = 1, z_v = 0\<rparr>
     = \<lparr>r0c0 = complexOf 0 0, r0c1 = complexOf (- 1) 0,
        r1c0 = complexOf 1 0, r1c1 = complexOf 0 0\<rparr>
   \<and> \<not> matrixWithin 1
       (matrixMul (pure_rotateAroundAxisConj unitaryOfCall () 0 pi \<lparr>x_v = 0, y_v = 1, z_v = 0\<rparr>)
                  (pure_rotateAroundAxis unitaryOfCall () 0 pi \<lparr>x_v = 0, y_v = 1, z_v = 0\<rparr>))
       identityMatrix
   \<and> \<not> matrixWithin 1
       (matrixMul (pure_rotateAroundAxis unitaryOfCall () 0 pi \<lparr>x_v = 0, y_v = 1, z_v = 0\<rparr>)
                  (pure_rotateAroundAxisConj unitaryOfCall () 0 pi \<lparr>x_v = 0, y_v = 1, z_v = 0\<rparr>))
       identityMatrix"
  by (simp add: pure_rotateAroundAxisConj_def pure_rotateAroundAxis_def unitaryOfCall_def
      getAlphaBetaFromRotation_def compactUnitaryMatrix_def matrixMul_def complexAdd_def
      complexMul_def matrixWithin_def complexWithin_def identityMatrix_def complexOf_def)

text \<open>
  Claim C2, amended. For every angle and every axis that is not the zero vector, the
  unitary of the conjugate variant is the element-wise complex conjugate of the unitary
  of the plain variant; its transpose is therefore the Hermitian adjoint of the plain
  unitary, and the transpose of the conjugate variant's unitary composed with the plain
  variant's unitary, in either order, is the identity matrix exactly.
\<close>

theorem rotateAroundAxisConj_is_conjugate:
  assumes "x_v axis \<noteq> 0 \<or> y_v axis \<noteq> 0 \<or> z_v axis \<noteq> 0"
  shows "pure_rotateAroundAxisConj unitaryOfCall qureg rotQubit angle axis
           = getConjugateMatrix (pure_rotateAroundAxis unitaryOfCall qureg rotQubit angle axis)
         \<and> matrixMul
             (matrixTranspose (pure_rotateAroundAxisConj unitaryOfCall qureg rotQubit angle axis))
             (pure_rotateAroundAxis unitaryOfCall qureg rotQubit angle axis) = identityMatrix
         \<and> matrixMul
             (pure_rotateAroundAxis unitaryOfCall qureg rotQubit angle axis)
             (matrixTranspose (pure_rotateAroundAxisConj unitaryOfCall qureg rotQubit angle axis))
           = identityMatrix"
proof -
  obtain alpha beta where ab: "getAlphaBetaFromRotation angle axis = (alpha, beta)"
    by (cases "getAlphaBetaFromRotation angle axis")
  have n: "(real_c alpha)\<^sup>2 + (imag_c alpha)\<^sup>2 + (real_c beta)\<^sup>2 + (imag_c beta)\<^sup>2 = 1"
    using assms ab by (rule alpha_beta_squares)
  have plain: "pure_rotateAroundAxis unitaryOfCall qureg rotQubit angle axis
                 = compactUnitaryMatrix alpha beta"
    by (simp add: pure_rotateAroundAxis_def unitaryOfCall_def ab)
  show ?thesis
    using compactUnitary_adjoint [OF n]
    by (simp add: conj_call_is_conjugate plain)
qed

theorem rotateAroundAxisConj_is_conjugate_witness:
  "pure_rotateAroundAxisConj unitaryOfCall () 0 pi \<lparr>x_v = 0, y_v = 1, z_v = 0\<rparr>
     = getConjugateMatrix
         (pure_rotateAroundAxis unitaryOfCall () 0 pi \<lparr>x_v = 0, y_v = 1, z_v = 0\<rparr>)
   \<and> matrixMul
     (matrixTranspose
        (pure_rotateAroundAxisConj unitaryOfCall () 0 pi \<lparr>x_v = 0, y_v = 1, z_v = 0\<rparr>))
     (pure_rotateAroundAxis unitaryOfCall () 0 pi \<lparr>x_v = 0, y_v = 1, z_v = 0\<rparr>) = identityMatrix
   \<and> matrixMul
       (pure_rotateAroundAxis unitaryOfCall () 0 pi \<lparr>x_v = 0, y_v = 1, z_v = 0\<rparr>)
       (matrixTranspose
          (pure_rotateAroundAxisConj unitaryOfCall () 0 pi \<lparr>x_v = 0, y_v = 1, z_v = 0\<rparr>))
     = identityMatrix"
proof -
  have axis: "x_v \<lparr>x_v = 0, y_v = 1, z_v = 0\<rparr> \<noteq> 0 \<or> y_v \<lparr>x_v = 0, y_v = 1, z_v = 0\<rparr> \<noteq> 0
              \<or> z_v \<lparr>x_v = 0, y_v = 1, z_v = 0\<rparr> \<noteq> 0"
    by simp
  show ?thesis
    by (rule rotateAroundAxisConj_is_conjugate [OF axis])
qed

subsection \<open>Validators\<close>

lemma validateMatrixIsUnitary_checks:
  "validateMatrixIsUnitary eps u = 1 \<longleftrightarrow>
     \<bar>column0NormSq u - 1\<bar> \<le> eps \<and> \<bar>column1NormSq u - 1\<bar> \<le> eps
     \<and> \<bar>Re (columnInner u)\<bar> \<le> eps \<and> \<bar>Im (columnInner u)\<bar> \<le> eps"
proof -
  have c0: "column0NormSq u
              = real_c (r0c0 u) * real_c (r0c0 u) + imag_c (r0c0 u) * imag_c (r0c0 u)
                + real_c (r1c0 u) * real_c (r1c0 u) + imag_c (r1c0 u) * imag_c (r1c0 u)"
    by (simp add: column0NormSq_def cmod_toComplex_sq)
  have c1: "column1NormSq u
              = real_c (r0c1 u) * real_c (r0c1 u) + imag_c (r0c1 u) * imag_c (r0c1 u)
                + real_c (r1c1 u) * real_c (r1c1 u) + imag_c (r1c1 u) * imag_c (r1c1 u)"
    by (simp add: column1NormSq_def cmod_toComplex_sq)
  have re: "Re (columnInner u)
              = real_c (r0c0 u) * real_c (r0c1 u) + imag_c (r0c0 u) * imag_c (r0c1 u)
                + real_c (r1c0 u) * real_c (r1c1 u) + imag_c (r1c0 u) * imag_c (r1c1 u)"
    by (simp add: columnInner_def toComplex_def)
  have im: "Im (columnInner u)
              = - (real_c (r0c1 u) * imag_c (r0c0 u) - real_c (r0c0 u) * imag_c (r0c1 u)
                   + real_c (r1c1 u) * imag_c (r1c0 u) - real_c (r1c0 u) * imag_c (r1c1 u))"
    by (simp add: columnInner_def toComplex_def algebra_simps)
  show ?thesis
    unfolding c0 c1 re im abs_minus_cancel
    by (simp add: validateMatrixIsUnitary_def absReal_def not_less)
qed

lemma validateMatrixIsUnitary_range:
  "validateMatrixIsUnitary eps u \<noteq> 1 \<longrightarrow> validateMatrixIsUnitary eps u = 0"
  by (simp add: validateMatrixIsUnitary_def)

lemmas matrix_defs = identityMatrix_def pauliX_def pauliY_def pauliZ_def complexOf_def
  scaleColumn0_def scaleColumn1_def complexScale_def

lemma validateMatrixIsUnitary_accepts:
  assumes "0 \<le> eps"
  shows "validateMatrixIsUnitary eps identityMatrix = 1"
    and "validateMatrixIsUnitary eps pauliX = 1"
    and "validateMatrixIsUnitary eps pauliY = 1"
    and "validateMatrixIsUnitary eps pauliZ = 1"
  using assms by (simp_all add: validateMatrixIsUnitary_def absReal_def matrix_defs)

lemma validateMatrixIsUnitary_rejects:
  assumes "eps < 3"
  shows "validateMatrixIsUnitary eps (scaleColumn0 2 identityMatrix) = 0"
    and "validateMatrixIsUnitary eps (scaleColumn1 2 identityMatrix) = 0"
    and "validateMatrixIsUnitary eps (scaleColumn0 2 pauliX) = 0"
    and "validateMatrixIsUnitary eps (scaleColumn1 2 pauliX) = 0"
    and "validateMatrixIsUnitary eps (scaleColumn0 2 pauliY) = 0"
    and "validateMatrixIsUnitary eps (scaleColumn1 2 pauliY) = 0"
    and "validateMatrixIsUnitary eps (scaleColumn0 2 pauliZ) = 0"
    and "validateMatrixIsUnitary eps (scaleColumn1 2 pauliZ) = 0"
  using assms by (simp_all add: validateMatrixIsUnitary_def absReal_def matrix_defs)

text \<open>
  Claim C4. \<^verbatim>\<open>validateMatrixIsUnitary\<close> returns 1 exactly when four quantities are
  each within epsilon of their target: the squared norm of column 0 and of column 1, of
  1; the real and the imaginary part of the inner product of column 0 with column 1,
  of 0. Otherwise it returns 0. With a tolerance that is not negative it accepts the
  identity and the Pauli matrices X, Y, Z; with a tolerance below 3 it rejects each of
  these four with column 0 or column 1 scaled by 2.
\<close>

theorem validateMatrixIsUnitary_four_checks:
  "(validateMatrixIsUnitary eps u = 1 \<longleftrightarrow>
      \<bar>column0NormSq u - 1\<bar> \<le> eps \<and> \<bar>column1NormSq u - 1\<bar> \<le> eps
      \<and> \<bar>Re (columnInner u)\<bar> \<le> eps \<and> \<bar>Im (columnInner u)\<bar> \<le> eps)
   \<and> (validateMatrixIsUnitary eps u \<noteq> 1 \<longrightarrow> validateMatrixIsUnitary eps u = 0)
   \<and> (0 \<le> eps \<longrightarrow>
        validateMatrixIsUnitary eps identityMatrix = 1
        \<and> validateMatrixIsUnitary eps pauliX = 1
        \<and> validateMatrixIsUnitary eps pauliY = 1
        \<and> validateMatrixIsUnitary eps pauliZ = 1)
   \<and> (eps < 3 \<longrightarrow>
        validateMatrixIsUnitary eps (scaleColumn0 2 identityMatrix) = 0
        \<and> validateMatrixIsUnitary eps (scaleColumn1 2 identityMatrix) = 0
        \<and> validateMatrixIsUnitary eps (scaleColumn0 2 pauliX) = 0
        \<and> validateMatrixIsUnitary eps (scaleColumn1 2 pauliX) = 0
        \<and> validateMatrixIsUnitary eps (scaleColumn0 2 pauliY) = 0
        \<and> validateMatrixIsUnitary eps (scaleColumn1 2 pauliY) = 0
        \<and> validateMatrixIsUnitary eps (scaleColumn0 2 pauliZ) = 0
        \<and> validateMatrixIsUnitary eps (scaleColumn1 2 pauliZ) = 0)"
  using validateMatrixIsUnitary_checks [of eps u] validateMatrixIsUnitary_range [of eps u]
    validateMatrixIsUnitary_accepts [of eps] validateMatrixIsUnitary_rejects [of eps]
  by blast

theorem validateMatrixIsUnitary_four_checks_witness:
  "validateMatrixIsUnitary (1 / 10 ^ 13) identityMatrix = 1
   \<and> validateMatrixIsUnitary (1 / 10 ^ 13) pauliX = 1
   \<and> validateMatrixIsUnitary (1 / 10 ^ 13) pauliY = 1
   \<and> validateMatrixIsUnitary (1 / 10 ^ 13) pauliZ = 1
   \<and> validateMatrixIsUnitary (1 / 10 ^ 13) (scaleColumn0 2 identityMatrix) = 0
   \<and> validateMatrixIsUnitary (1 / 10 ^ 13) (scaleColumn1 2 identityMatrix) = 0
   \<and> validateMatrixIsUnitary (1 / 10 ^ 13) (scaleColumn0 2 pauliX) = 0
   \<and> validateMatrixIsUnitary (1 / 10 ^ 13) (scaleColumn1 2 pauliX) = 0
   \<and> validateMatrixIsUnitary (1 / 10 ^ 13) (scaleColumn0 2 pauliY) = 0
   \<and> validateMatrixIsUnitary (1 / 10 ^ 13) (scaleColumn1 2 pauliY) = 0
   \<and> validateMatrixIsUnitary (1 / 10 ^ 13) (scaleColumn0 2 pauliZ) = 0
   \<and> validateMatrixIsUnitary (1 / 10 ^ 13) (scaleColumn1 2 pauliZ) = 0"
  using validateMatrixIsUnitary_four_checks [of "1 / 10 ^ 13" pauliY]
  by simp

lemma validateAlphaBeta_iff:
  "validateAlphaBeta eps alpha beta = 1 \<longleftrightarrow>
     \<bar>(cmod (toComplex alpha))\<^sup>2 + (cmod (toComplex beta))\<^sup>2 - 1\<bar> \<le> eps"
  by (simp add: validateAlphaBeta_def absReal_def cmod_toComplex_sq not_less add.assoc)




text \<open>
  The boundary in double precision, as an instance: next to 1 a double is a multiple of
  \<open>2 ^ - 53\<close>, and the double nearest to \<open>10 ^ - 13\<close> is
  \<open>3961408125713217 / 2 ^ 95\<close>, with an odd numerator. No deviation on that grid
  equals that tolerance, and with it the strict bound decides the result.
\<close>

lemma double_grid_misses_tolerance:
  "real_of_int k / 2 ^ 53 \<noteq> 3961408125713217 / 2 ^ 95"
proof
  assume "real_of_int k / 2 ^ 53 = 3961408125713217 / 2 ^ 95"
  then have "real_of_int k * 2 ^ 42 = 3961408125713217"
    by (simp add: field_simps)
  then have "real_of_int (k * 2 ^ 42) = real_of_int 3961408125713217"
    by simp
  then have "k * 2 ^ 42 = 3961408125713217"
    by (simp only: of_int_eq_iff)
  moreover have "even (k * 2 ^ 42)"
    by simp
  moreover have "odd (3961408125713217 :: int)"
    by simp
  ultimately show False
    by simp
qed

lemma validateAlphaBeta_strict_on_double_grid:
  assumes "\<bar>(cmod (toComplex alpha))\<^sup>2 + (cmod (toComplex beta))\<^sup>2 - 1\<bar> = real_of_int k / 2 ^ 53"
  shows "validateAlphaBeta (3961408125713217 / 2 ^ 95) alpha beta = 1 \<longleftrightarrow>
           \<bar>(cmod (toComplex alpha))\<^sup>2 + (cmod (toComplex beta))\<^sup>2 - 1\<bar>
             < 3961408125713217 / 2 ^ 95"
  using assms double_grid_misses_tolerance [of k]
    validateAlphaBeta_iff [of "3961408125713217 / 2 ^ 95" alpha beta]
  by linarith

subsection \<open>The qubit register\<close>

lemma pure_getNumAmps_in_range:
  assumes "- (2 ^ 31) \<le> sint (numAmpsPerChunk qureg) * sint (numChunks qureg)"
    and "sint (numAmpsPerChunk qureg) * sint (numChunks qureg) < 2 ^ 31"
  shows "\<exists>w. pure_getNumAmps qureg = Some w
             \<and> sint w = sint (numAmpsPerChunk qureg) * sint (numChunks qureg)"
proof -
  define p where "p = sint (numAmpsPerChunk qureg) * sint (numChunks qureg)"
  have r: "- (2 ^ 31) \<le> p" "p < 2 ^ 31"
    using assms by (simp_all add: p_def)
  then have "signed_take_bit 31 p = p"
    by (intro signed_take_bit_int_eq_self)
  then have "sint (word_of_int p :: 32 word) = p"
    by (simp add: sint_sbintrunc')
  moreover have "\<not> (p < - (2 ^ 63) \<or> 2 ^ 63 \<le> p)"
    using r by simp
  ultimately show ?thesis
    by (simp add: pure_getNumAmps_def Let_def flip: p_def)
qed

lemma pure_getNumAmps_three_qubits:
  "pure_getNumAmps \<lparr>numQubits = 3, numAmpsPerChunk = 8, chunkId = 0, numChunks = 1\<rparr> = Some 8"
  by (simp add: pure_getNumAmps_def)

lemma numAmpsPerChunk_three_qubits_two_chunks:
  assumes "registerInvariant \<lparr>numQubits = 3, numAmpsPerChunk = n, chunkId = c, numChunks = 2\<rparr>"
  shows "n = 4"
proof -
  have "sint n * 2 = 8"
    using assms by (simp add: registerInvariant_def)
  then have "sint n = 4"
    by simp
  then have "word_of_int (sint n) = (word_of_int 4 :: 64 word)"
    by simp
  then show ?thesis
    by simp
qed

text \<open>
  Claim C7 does not hold of the code for every register. The register of 31 qubits in
  one chunk satisfies the invariant of the data model, with \<open>2 ^ 31\<close> amplitudes in
  its chunk; the product \<open>numAmpsPerChunk * numChunks\<close> is \<open>2147483648\<close>, and
  \<^verbatim>\<open>pure_getNumAmps\<close>, whose return type is \<^verbatim>\<open>int\<close>, returns \<open>- 2147483648\<close>.
\<close>

theorem pure_getNumAmps_truncates:
  "registerInvariant \<lparr>numQubits = 31, numAmpsPerChunk = 2147483648, chunkId = 0, numChunks = 1\<rparr>
   \<and> pure_getNumAmps \<lparr>numQubits = 31, numAmpsPerChunk = 2147483648, chunkId = 0, numChunks = 1\<rparr>
       = Some (- 2147483648)
   \<and> sint (- 2147483648 :: 32 word) = - 2147483648
   \<and> sint (2147483648 :: 64 word) * sint (1 :: 32 word) = 2147483648"
  by (simp add: registerInvariant_def pure_getNumAmps_def)

subsection \<open>Reporting the register parameters\<close>

lemma sdiv_pos:
  fixes a b :: int
  assumes "0 < a" and "0 < b"
  shows "a sdiv b = a div b"
  using assms by (simp add: signed_divide_int_def)

text \<open>
  Claim C8. For a register of the data model (\<open>numQubits\<close> not negative,
  \<open>numChunks\<close> positive) whose \<open>2 ^ numQubits\<close> is a \<^verbatim>\<open>long\<close>
  (\<open>numQubits\<close> at most 62), \<^verbatim>\<open>reportQubitRegisterParams\<close> returns normally; when
  \<open>chunkId\<close> is 0 it appends to standard output the heading \<^verbatim>\<open>QUBITS:\<close> and the
  three lines giving the number of qubits, the number of amplitudes \<open>2 ^ numQubits\<close> and
  the number of amplitudes per rank \<open>2 ^ numQubits div numChunks\<close>; for any other
  \<open>chunkId\<close> standard output is as it was. The register is passed by value: the
  outcome carries no register.
\<close>

theorem reportQubitRegisterParams_designated:
  assumes "0 \<le> sint (numQubits qureg)" and "sint (numQubits qureg) \<le> 62"
    and "0 < sint (numChunks qureg)"
  shows "reportQubitRegisterParams qureg out
           = (if chunkId qureg = 0 then out @ reportText qureg else out, Returned ())"
proof -
  have d: "(2 :: int) ^ nat (sint (numQubits qureg)) sdiv sint (numChunks qureg)
             = 2 ^ nat (sint (numQubits qureg)) div sint (numChunks qureg)"
    using assms(3) by (intro sdiv_pos) simp_all
  show ?thesis
    using assms
    by (simp add: reportQubitRegisterParams_def Let_def d then_c_def printf_c_def return_c_def
        reportText_def)
qed

theorem reportQubitRegisterParams_designated_witness:
  "reportQubitRegisterParams \<lparr>numQubits = 3, numAmpsPerChunk = 4, chunkId = 0, numChunks = 2\<rparr> []
     = (''QUBITS:'' @ [newline]
        @ ''Number of qubits is 3.'' @ [newline]
        @ ''Number of amps is 8.'' @ [newline]
        @ ''Number of amps per rank is 4.'' @ [newline], Returned ())
   \<and> reportQubitRegisterParams \<lparr>numQubits = 3, numAmpsPerChunk = 4, chunkId = 1, numChunks = 2\<rparr> []
     = ([], Returned ())"
  using reportQubitRegisterParams_designated
          [of "\<lparr>numQubits = 3, numAmpsPerChunk = 4, chunkId = 0, numChunks = 2\<rparr>" "[]"]
        reportQubitRegisterParams_designated
          [of "\<lparr>numQubits = 3, numAmpsPerChunk = 4, chunkId = 1, numChunks = 2\<rparr>" "[]"]
  by (simp add: reportText_def decimal_def digits.simps digit_def)

end
